theory Spec2Isabelle
  imports Complex_Main "HOL-Library.Word"
begin

section \<open>quetz/config.py: the settings schema\<close>

text \<open>
  Every settings class of the module is a record whose fields carry the declared
  annotation: \<open>str\<close> is \<open>string\<close>, \<open>int\<close> is \<open>int\<close>, \<open>list[str]\<close> is a list of
  strings, \<open>X | None\<close> is an option, \<open>str | bool\<close> is a sum. Field names are prefixed
  with the class they belong to, since several classes declare a field of the same name
  (\<open>url\<close>, \<open>client_id\<close>, \<open>region\<close>). The float \<open>interval_seconds\<close> is kept as a rational,
  and the default of \<open>batch_size\<close>, written \<open>1e8\<close> in the source, as the integer it denotes.
  \<open>SettingsWorker\<close> is the one class that does not derive from \<open>BaseSettings\<close>; its
  attributes are class attributes.
\<close>

record SettingsGeneral =
  General_package_unpack_threads :: int
  General_frontend_dir :: string
  General_redirect_http_to_https :: bool

record SettingsCORS =
  CORS_allow_origins :: "string list"
  CORS_allow_credentials :: bool
  CORS_allow_methods :: "string list"
  CORS_allow_headers :: "string list"

record SettingsGitHub =
  GitHub_client_id :: string
  GitHub_client_secret :: string

record SettingsGitLab =
  GitLab_url :: string
  GitLab_client_id :: string
  GitLab_client_secret :: string

record SettingsAzureAD =
  AzureAD_client_id :: string
  AzureAD_client_secret :: string
  AzureAD_tenant_id :: string

record SettingsSQLAlchemy =
  SQLAlchemy_database_url :: string
  SQLAlchemy_database_plugin_path :: string
  SQLAlchemy_echo_sql :: bool
  SQLAlchemy_postgres_pool_size :: int
  SQLAlchemy_postgres_max_overflow :: int

record SettingsSession =
  Session_secret :: string
  Session_https_only :: bool

record SettingsLocalStore =
  LocalStore_redirect_enabled :: bool
  LocalStore_redirect_endpoint :: string
  LocalStore_redirect_secret :: string
  LocalStore_redirect_expiration :: int

record SettingsS3 =
  S3_access_key :: string
  S3_secret_key :: string
  S3_url :: string
  S3_region :: string
  S3_bucket_prefix :: string
  S3_bucket_suffix :: string

record SettingsAzureBlob =
  AzureBlob_account_name :: string
  AzureBlob_account_access_key :: string
  AzureBlob_conn_str :: string
  AzureBlob_container_prefix :: string
  AzureBlob_container_suffix :: string

record SettingsGCS =
  GCS_project :: string
  GCS_token :: string
  GCS_bucket_prefix :: string
  GCS_bucket_suffix :: string
  GCS_cache_timeout :: "int option"
  GCS_region :: "string option"

record SettingsGoogle =
  Google_client_id :: string
  Google_client_secret :: string

record SettingsLogging =
  Logging_level :: string
  Logging_file :: string

record SettingsUsers =
  Users_admins :: "string list"
  Users_maintainers :: "string list"
  Users_members :: "string list"
  Users_default_role :: "string + bool"
  Users_collect_emails :: bool
  Users_create_default_channel :: bool

record SettingsWorker =
  Worker_type :: string
  Worker_redis_ip :: string
  Worker_redis_port :: int
  Worker_redis_db :: int

record SettingsPlugins =
  Plugins_enabled :: "string list"

record SettingsMirroring =
  Mirroring_batch_length :: int
  Mirroring_batch_size :: int
  Mirroring_num_parallel_downloads :: int

record SettingsQuotas =
  Quotas_channel_quota :: int

record SettingsProfiling =
  Profiling_enable_sampling :: bool
  Profiling_interval_seconds :: rat

text \<open>
  The root class. A field annotated \<open>Optional[X] = None\<close> is an option; a field
  annotated with the bare class holds an instance in every validated \<open>Settings\<close>.
\<close>

record Settings =
  general :: SettingsGeneral
  cors :: "SettingsCORS option"
  github :: "SettingsGitHub option"
  gitlab :: "SettingsGitLab option"
  azuread :: "SettingsAzureAD option"
  sqlalchemy :: SettingsSQLAlchemy
  session :: SettingsSession
  local_store :: SettingsLocalStore
  s3 :: "SettingsS3 option"
  azure_blob :: "SettingsAzureBlob option"
  gcs :: "SettingsGCS option"
  google :: "SettingsGoogle option"
  logging :: "SettingsLogging option"
  users :: "SettingsUsers option"
  worker :: "SettingsWorker option"
  plugins :: SettingsPlugins
  mirroring :: SettingsMirroring
  quotas :: "SettingsQuotas option"
  profiling :: "SettingsProfiling option"

text \<open>
  The defaults the class bodies declare for the sections that \<open>Settings\<close> always
  holds: \<open>SettingsGeneral()\<close> and so on, with no value from the environment.
\<close>

definition SettingsGeneral_default :: SettingsGeneral where
  "SettingsGeneral_default =
     \<lparr>General_package_unpack_threads = 1, General_frontend_dir = '''',
      General_redirect_http_to_https = False\<rparr>"

definition SettingsLocalStore_default :: SettingsLocalStore where
  "SettingsLocalStore_default =
     \<lparr>LocalStore_redirect_enabled = False, LocalStore_redirect_endpoint = ''/files'',
      LocalStore_redirect_secret = '''', LocalStore_redirect_expiration = 3600\<rparr>"

definition SettingsPlugins_default :: SettingsPlugins where
  "SettingsPlugins_default = \<lparr>Plugins_enabled = []\<rparr>"

definition SettingsMirroring_default :: SettingsMirroring where
  "SettingsMirroring_default =
     \<lparr>Mirroring_batch_length = 10, Mirroring_batch_size = 100000000,
      Mirroring_num_parallel_downloads = 10\<rparr>"

section \<open>The process environment\<close>

text \<open>
  Exceptions are values. \<open>ConfigError\<close> is the module's own error (imported from
  \<open>quetz.errors\<close>); \<open>ValidationError\<close> is what the settings constructor raises; the
  others are Python's. Each carries its message, \<open>AttributeError\<close> the name of the
  attribute that is missing and \<open>OSError\<close> the path that could not be opened.
\<close>

datatype py_error =
    ConfigError string
  | ValidationError string
  | AttributeError string
  | TypeError string
  | OSError string
  | IndexError string

text \<open>
  What the module reads from outside itself is gathered in one record: the two
  directories \<open>appdirs\<close> returns, \<open>os.environ\<close>, \<open>os.path.isfile\<close>, \<open>os.path.abspath\<close>,
  \<open>os.getcwd()\<close>,
  the text \<open>open\<close> yields for a path (\<open>None\<close> when it raises), \<open>toml\<close>'s parser (\<open>Inl\<close> the
  message of its \<open>TomlDecodeError\<close>, \<open>Inr\<close> the parsed document of type \<open>'d\<close>) and the
  constructor of \<open>Settings\<close>, which \<open>pydantic\<close> provides: given the environment and the
  keyword arguments (\<open>None\<close> for the call \<open>Settings()\<close>, which reaches it once the
  mandatory fields are supplied) it returns a validated instance or the message of its
  validation error.
\<close>

record 'd world =
  site_dir :: string
  user_dir :: string
  environ :: "string \<rightharpoonup> string"
  isfile :: "string \<Rightarrow> bool"
  abspath :: "string \<Rightarrow> string"
  getcwd :: string
  open_read :: "string \<Rightarrow> string option"
  toml_loads :: "string \<Rightarrow> string + 'd"
  Settings_new :: "(string \<rightharpoonup> string) \<Rightarrow> 'd option \<Rightarrow> string + Settings"

definition filename :: string where
  "filename = ''config.toml''"

definition env_prefix :: string where
  "env_prefix = ''QUETZ_''"

definition env_config_file :: string where
  "env_config_file = ''CONFIG_FILE''"

text \<open>\<open>os.path.join\<close> of two components, on POSIX.\<close>

definition path_join :: "string \<Rightarrow> string \<Rightarrow> string" where
  "path_join a b =
     (if b \<noteq> [] \<and> hd b = CHR ''/'' then b
      else if a = [] \<or> last a = CHR ''/'' then a @ b
      else a @ ''/'' @ b)"

definition config_dirs :: "'d world \<Rightarrow> string list" where
  "config_dirs w = [site_dir w, user_dir w]"

definition config_files :: "'d world \<Rightarrow> string list" where
  "config_files w = map (\<lambda>d. path_join d filename) (config_dirs w)"

text \<open>Python's truth value of an optional string: \<open>None\<close> and \<open>""\<close> are false.\<close>

definition truthy_str :: "string option \<Rightarrow> bool" where
  "truthy_str f = (case f of None \<Rightarrow> False | Some p \<Rightarrow> p \<noteq> [])"

section \<open>Config.find\_file\<close>

definition deployment_config_files :: "'d world \<Rightarrow> string option \<Rightarrow> string list" where
  "deployment_config_files w deployment_config =
     (let config_file_env = environ w (env_prefix @ env_config_file)
      in List.map_filter
           (\<lambda>f. case f of None \<Rightarrow> None
                 | Some p \<Rightarrow> if truthy_str f \<and> isfile w p then Some p else None)
           [deployment_config, config_file_env])"

definition find_file :: "'d world \<Rightarrow> string option \<Rightarrow> string option" where
  "find_file w deployment_config =
     List.find (isfile w) (config_files w @ deployment_config_files w deployment_config)"

section \<open>The call Settings() without arguments\<close>

text \<open>\<open>str.upper\<close>, on the ASCII letters.\<close>

definition upper_char :: "char \<Rightarrow> char" where
  "upper_char c =
     (let n = (of_char c :: nat)
      in if 97 \<le> n \<and> n \<le> 122 then char_of (n - 32) else c)"

definition upper :: "string \<Rightarrow> string" where
  "upper s = map upper_char s"

text \<open>
  Modelled from the spec: the constructor of \<open>Settings\<close> is that of \<open>pydantic\<close>'s
  \<open>BaseSettings\<close>, a class the module imports and does not define. The specification
  says of it that every field is bound to the environment variable named by the fixed
  prefix, the section name and the field name, upper-cased and joined by underscores,
  and that with no file the fields that have no default and are required (the database
  connection string and the session secret) must fail construction with a validation
  error naming the missing field and its section.
\<close>

definition env_var :: "string \<Rightarrow> string \<Rightarrow> string" where
  "env_var section_name field = env_prefix @ upper (section_name @ ''_'' @ field)"

text \<open>
  The fields declared without a default in the two sections that \<open>Settings\<close> declares
  without a default: \<open>database_url: str\<close> in \<open>SettingsSQLAlchemy\<close> and \<open>secret: str\<close>
  in \<open>SettingsSession\<close>.
\<close>

definition mandatory_fields :: "(string \<times> string) list" where
  "mandatory_fields = [(''sqlalchemy'', ''database_url''), (''session'', ''secret'')]"

definition missing_fields :: "(string \<rightharpoonup> string) \<Rightarrow> (string \<times> string) list" where
  "missing_fields env = filter (\<lambda>(s, f). env (env_var s f) = None) mandatory_fields"

text \<open>The message of the validation error: one entry for each missing field.\<close>

fun missing_message :: "(string \<times> string) list \<Rightarrow> string" where
  "missing_message [] = []"
| "missing_message ((s, f) # ms) = s @ ''.'' @ f @ '': field required; '' @ missing_message ms"

text \<open>
  Modelled from the spec: \<open>Settings()\<close>. When a mandatory field is not supplied by the
  environment the call fails and names every such field; otherwise the constructor
  goes on to build the instance from the environment and the defaults, which is left to
  the library (and may still fail there).
\<close>

definition Settings_no_arguments :: "'d world \<Rightarrow> py_error + Settings" where
  "Settings_no_arguments w =
     (if missing_fields (environ w) \<noteq> []
      then Inl (ValidationError (missing_message (missing_fields (environ w))))
      else (case Settings_new w (environ w) None of
              Inl v \<Rightarrow> Inl (ValidationError v)
            | Inr s \<Rightarrow> Inr s))"

section \<open>Config.\_read\_config and Config.init\<close>

definition quote :: char where
  "quote = CHR 0x27"

definition read_config :: "'d world \<Rightarrow> string \<Rightarrow> py_error + Settings" where
  "read_config w fname =
     (case open_read w fname of
        None \<Rightarrow> Inl (OSError fname)
      | Some text \<Rightarrow>
          (case toml_loads w text of
             Inl e \<Rightarrow>
               Inl (ConfigError
                 (''failed to load config file '' @ [quote] @ fname @ [quote] @ '': '' @ e))
           | Inr d \<Rightarrow>
               (case Settings_new w (environ w) (Some d) of
                  Inl v \<Rightarrow> Inl (ValidationError v)
                | Inr s \<Rightarrow> Inr s)))"

definition init :: "'d world \<Rightarrow> string \<Rightarrow> py_error + Settings" where
  "init w path =
     (if path \<noteq> [] then read_config w path else Settings_no_arguments w)"

section \<open>Config.\_\_new\_\_ and the registry of instances\<close>

text \<open>
  A \<open>Config\<close> object is its identity (the number of the allocation that made it) and
  its attribute \<open>config\<close>. The class attribute \<open>_instances\<close> is a dictionary whose keys
  are \<open>None\<close> and strings; the process state is that dictionary and the count of
  objects allocated so far.
\<close>

record Config =
  obj_id :: nat
  config :: Settings

record process =
  instances :: "string option \<rightharpoonup> Config"
  allocated :: nat

definition process_start :: process where
  "process_start = \<lparr>instances = Map.empty, allocated = 0\<rparr>"

definition resolved_path :: "'d world \<Rightarrow> string option \<Rightarrow> string" where
  "resolved_path w deployment_config =
     (case find_file w deployment_config of
        None \<Rightarrow> ''''
      | Some f \<Rightarrow> abspath w f)"

definition Config_new ::
  "'d world \<Rightarrow> process \<Rightarrow> string option \<Rightarrow> (py_error + Config) \<times> process" where
  "Config_new w st deployment_config =
     (case (if \<not> truthy_str deployment_config then instances st None else None) of
        Some c \<Rightarrow> (Inr c, st)
      | None \<Rightarrow>
          (let path = resolved_path w deployment_config in
           case instances st (Some path) of
             Some c \<Rightarrow> (Inr c, st)
           | None \<Rightarrow>
               (case init w path of
                  Inl e \<Rightarrow> (Inl e, st\<lparr>allocated := Suc (allocated st)\<rparr>)
                | Inr s \<Rightarrow>
                    (let c = \<lparr>obj_id = allocated st, config = s\<rparr>;
                         stored = (instances st)(Some path \<mapsto> c);
                         stored' = (if \<not> truthy_str deployment_config
                                    then stored(None \<mapsto> c) else stored)
                     in (Inr c, \<lparr>instances = stored', allocated = Suc (allocated st)\<rparr>)))))"

section \<open>Attribute lookup on Settings and Config objects\<close>

text \<open>
  The module reads attributes by name (\<open>getattr(self.config, section)\<close>,
  \<open>self.s3_access_key\<close>, \<open>hasattr(config, "logging_level")\<close>), so the values an
  attribute of a \<open>Settings\<close> object can hold are gathered in one type: \<open>None\<close> or an
  instance of one of the section classes.
\<close>

datatype pyobj =
    PyNone
  | PyGeneral SettingsGeneral
  | PyCORS SettingsCORS
  | PyGitHub SettingsGitHub
  | PyGitLab SettingsGitLab
  | PyAzureAD SettingsAzureAD
  | PySQLAlchemy SettingsSQLAlchemy
  | PySession SettingsSession
  | PyLocalStore SettingsLocalStore
  | PyS3 SettingsS3
  | PyAzureBlob SettingsAzureBlob
  | PyGCS SettingsGCS
  | PyGoogle SettingsGoogle
  | PyLogging SettingsLogging
  | PyUsers SettingsUsers
  | PyWorker SettingsWorker
  | PyPlugins SettingsPlugins
  | PyMirroring SettingsMirroring
  | PyQuotas SettingsQuotas
  | PyProfiling SettingsProfiling

definition optional :: "('a \<Rightarrow> pyobj) \<Rightarrow> 'a option \<Rightarrow> pyobj" where
  "optional f x = (case x of None \<Rightarrow> PyNone | Some v \<Rightarrow> f v)"

text \<open>
  The attributes of a \<open>Settings\<close> object are the fields its class body declares, in
  the order of the source. The class body declares nothing else, and the module never
  sets another attribute on it: the loop that once flattened \<open>section_field\<close> names onto
  the object is commented out. The lookup below answers for these fields and raises
  \<open>AttributeError\<close> for any other name. That is what Python does for every name the
  module asks for (\<open>get\<close>, \<open>logging_level\<close>, \<open>logging_file\<close>, \<open>plugins_enabled\<close>, the
  \<open>s3_\<close>, \<open>azure_blob_\<close>, \<open>gcs_\<close> and \<open>local_store_\<close> names). The names a \<open>Settings\<close>
  object inherits from its base class (\<open>__doc__\<close>, \<open>dict\<close>, ...) are not modelled, so
  nothing is stated here about a lookup of those.
\<close>

definition Settings_fields :: "Settings \<Rightarrow> (string \<times> pyobj) list" where
  "Settings_fields s =
     [(''general'', PyGeneral (general s)),
      (''cors'', optional PyCORS (cors s)),
      (''github'', optional PyGitHub (github s)),
      (''gitlab'', optional PyGitLab (gitlab s)),
      (''azuread'', optional PyAzureAD (azuread s)),
      (''sqlalchemy'', PySQLAlchemy (sqlalchemy s)),
      (''session'', PySession (session s)),
      (''local_store'', PyLocalStore (local_store s)),
      (''s3'', optional PyS3 (s3 s)),
      (''azure_blob'', optional PyAzureBlob (azure_blob s)),
      (''gcs'', optional PyGCS (gcs s)),
      (''google'', optional PyGoogle (google s)),
      (''logging'', optional PyLogging (logging s)),
      (''users'', optional PyUsers (users s)),
      (''worker'', optional PyWorker (worker s)),
      (''plugins'', PyPlugins (plugins s)),
      (''mirroring'', PyMirroring (mirroring s)),
      (''quotas'', optional PyQuotas (quotas s)),
      (''profiling'', optional PyProfiling (profiling s))]"

definition Settings_getattr :: "Settings \<Rightarrow> string \<Rightarrow> py_error + pyobj" where
  "Settings_getattr s name =
     (case map_of (Settings_fields s) name of
        None \<Rightarrow> Inl (AttributeError name)
      | Some v \<Rightarrow> Inr v)"

text \<open>
  \<open>Config.__getattr__\<close>, which Python calls for every name that is neither the
  instance attribute \<open>config\<close> nor an attribute of the class.
\<close>

definition Config_getattr :: "Config \<Rightarrow> string \<Rightarrow> py_error + pyobj" where
  "Config_getattr self name = Settings_getattr (config self) name"

text \<open>
  Truth value: \<open>None\<close> is false, and an instance of a section class is true (the
  classes define neither \<open>__bool__\<close> nor \<open>__len__\<close>).
\<close>

fun truthy :: "pyobj \<Rightarrow> bool" where
  "truthy PyNone = False"
| "truthy _ = True"

text \<open>
  Calling a method by name: the attribute is looked up first; no attribute value of
  a \<open>Settings\<close> object (a section instance or \<open>None\<close>) is callable.
\<close>

definition Settings_call :: "Settings \<Rightarrow> string \<Rightarrow> string \<Rightarrow> py_error + pyobj" where
  "Settings_call s method arg =
     (case Settings_getattr s method of
        Inl e \<Rightarrow> Inl e
      | Inr v \<Rightarrow> Inl (TypeError ''object is not callable''))"

text \<open>\<open>int(x)\<close> on an attribute value: neither \<open>None\<close> nor a section converts.\<close>

definition py_int :: "pyobj \<Rightarrow> py_error + int" where
  "py_int v = Inl (TypeError ''int() argument must be a string or a real number'')"

section \<open>Config.configured\_section\<close>

definition configured_section :: "Config \<Rightarrow> string \<Rightarrow> py_error + bool" where
  "configured_section self section_name =
     (case Settings_getattr (config self) section_name of
        Inl e \<Rightarrow> Inl e
      | Inr v \<Rightarrow> Inr (truthy v))"

section \<open>Config.get\_package\_store\<close>

text \<open>
  The package stores are built by \<open>quetz.pkgstores\<close> from a dictionary; the descriptor
  is that dictionary under the tag of the store class. The values of the dictionaries
  the module builds, here and for logging, are strings, integers, booleans, lists of
  names, and values of attributes.
\<close>

datatype dict_value =
  DStr string | DInt int | DBool bool | DList "string list" | DObj pyobj

datatype PackageStore =
    S3Store "(string \<times> dict_value) list"
  | AzureBlobStore "(string \<times> dict_value) list"
  | GoogleCloudStorageStore "(string \<times> dict_value) list"
  | LocalStore "(string \<times> dict_value) list"

text \<open>
  A dictionary display whose values are attributes of \<open>self\<close>: the entries are
  evaluated from left to right and the first failing lookup raises.
\<close>

fun attr_dict :: "Config \<Rightarrow> (string \<times> string) list \<Rightarrow> py_error + (string \<times> dict_value) list" where
  "attr_dict self [] = Inr []"
| "attr_dict self ((k, name) # rest) =
     (case Config_getattr self name of
        Inl e \<Rightarrow> Inl e
      | Inr v \<Rightarrow>
          (case attr_dict self rest of
             Inl e \<Rightarrow> Inl e
           | Inr d \<Rightarrow> Inr ((k, DObj v) # d)))"

definition store_of ::
  "((string \<times> dict_value) list \<Rightarrow> PackageStore) \<Rightarrow> py_error + (string \<times> dict_value) list
   \<Rightarrow> py_error + PackageStore" where
  "store_of cls d = (case d of Inl e \<Rightarrow> Inl e | Inr kv \<Rightarrow> Inr (cls kv))"

definition local_store_dict :: "Config \<Rightarrow> py_error + (string \<times> dict_value) list" where
  "local_store_dict self =
     (case attr_dict self
             [(''redirect_enabled'', ''local_store_redirect_enabled''),
              (''redirect_endpoint'', ''local_store_redirect_endpoint''),
              (''redirect_secret'', ''local_store_redirect_secret'')] of
        Inl e \<Rightarrow> Inl e
      | Inr d \<Rightarrow>
          (case Config_getattr self ''local_store_redirect_expiration'' of
             Inl e \<Rightarrow> Inl e
           | Inr v \<Rightarrow>
               (case py_int v of
                  Inl e \<Rightarrow> Inl e
                | Inr n \<Rightarrow>
                    Inr ((''channels_dir'', DStr ''channels'') # d
                         @ [(''redirect_expiration'', DInt n)]))))"

definition get_package_store :: "Config \<Rightarrow> py_error + PackageStore" where
  "get_package_store self =
     (case Settings_call (config self) ''get'' ''s3'' of
        Inl e \<Rightarrow> Inl e
      | Inr has_s3 \<Rightarrow>
     if truthy has_s3 then
       store_of S3Store (attr_dict self
         [(''key'', ''s3_access_key''),
          (''secret'', ''s3_secret_key''),
          (''url'', ''s3_url''),
          (''region'', ''s3_region''),
          (''bucket_prefix'', ''s3_bucket_prefix''),
          (''bucket_suffix'', ''s3_bucket_suffix'')])
     else
     (case Settings_call (config self) ''get'' ''azure_blob'' of
        Inl e \<Rightarrow> Inl e
      | Inr has_azure \<Rightarrow>
     if truthy has_azure then
       store_of AzureBlobStore (attr_dict self
         [(''account_name'', ''azure_blob_account_name''),
          (''account_access_key'', ''azure_blob_account_access_key''),
          (''conn_str'', ''azure_blob_conn_str''),
          (''container_prefix'', ''azure_blob_container_prefix''),
          (''container_suffix'', ''azure_blob_container_suffix'')])
     else
     (case Settings_call (config self) ''get'' ''gcs'' of
        Inl e \<Rightarrow> Inl e
      | Inr has_gcs \<Rightarrow>
     if truthy has_gcs then
       store_of GoogleCloudStorageStore (attr_dict self
         [(''project'', ''gcs_project''),
          (''token'', ''gcs_token''),
          (''bucket_prefix'', ''gcs_bucket_prefix''),
          (''bucket_suffix'', ''gcs_bucket_suffix''),
          (''cache_timeout'', ''gcs_cache_timeout''),
          (''region'', ''gcs_region'')])
     else store_of LocalStore (local_store_dict self))))"

section \<open>get\_logger\_config\<close>

text \<open>
  \<open>hasattr(config, name)\<close> is false when the lookup raises \<open>AttributeError\<close>; \<open>None\<close>
  (the default argument of \<open>configure_logger\<close>) has none of the names asked for.
\<close>

definition hasattr :: "Config option \<Rightarrow> string \<Rightarrow> py_error + bool" where
  "hasattr cfg name =
     (case cfg of
        None \<Rightarrow> Inr False
      | Some c \<Rightarrow>
          (case Config_getattr c name of
             Inl (AttributeError _) \<Rightarrow> Inr False
           | Inl e \<Rightarrow> Inl e
           | Inr _ \<Rightarrow> Inr True))"

text \<open>\<open>config.name\<close> after \<open>hasattr\<close> said yes.\<close>

definition getattr :: "Config option \<Rightarrow> string \<Rightarrow> py_error + pyobj" where
  "getattr cfg name =
     (case cfg of
        None \<Rightarrow> Inl (AttributeError name)
      | Some c \<Rightarrow> Config_getattr c name)"

text \<open>
  The value bound to \<open>log_level\<close> before \<open>.upper()\<close> is a string (the literal or the
  environment's) or an attribute value, which has no method \<open>upper\<close>.
\<close>

definition log_level_of :: "'d world \<Rightarrow> Config option \<Rightarrow> py_error + string" where
  "log_level_of w cfg =
     (case hasattr cfg ''logging_level'' of
        Inl e \<Rightarrow> Inl e
      | Inr has_level \<Rightarrow>
          (case (if has_level
                 then (case getattr cfg ''logging_level'' of
                         Inl e \<Rightarrow> Inl e | Inr v \<Rightarrow> Inr (DObj v))
                 else Inr (DStr ''INFO'')) of
             Inl e \<Rightarrow> Inl e
           | Inr log_level \<Rightarrow>
               (case (case environ w ''QUETZ_LOG_LEVEL'' of
                        Some s \<Rightarrow> DStr s
                      | None \<Rightarrow> log_level) of
                  DStr s \<Rightarrow> Inr (upper s)
                | _ \<Rightarrow> Inl (AttributeError ''upper''))))"

definition log_filename_of :: "Config option \<Rightarrow> py_error + pyobj" where
  "log_filename_of cfg =
     (case hasattr cfg ''logging_file'' of
        Inl e \<Rightarrow> Inl e
      | Inr has_file \<Rightarrow>
          if has_file then getattr cfg ''logging_file'' else Inr PyNone)"

definition LOG_FORMATTERS :: "(string \<times> (string \<times> dict_value) list) list" where
  "LOG_FORMATTERS =
     [(''colour'',
         [(''()'', DStr ''quetz.config.colourized_formatter''),
          (''fmt'', DStr ''%(levelprefix)s [%(name)s] %(message)s''),
          (''use_colors'', DBool True)]),
      (''basic'', [(''format'', DStr ''%(levelprefix)s [%(name)s] %(message)s'')]),
      (''timestamp'',
         [(''format'', DStr ''%(asctime)s %(levelname)s %(name)s  %(message)s'')])]"

record LogConfig =
  version :: int
  disable_existing_loggers :: bool
  formatters :: "(string \<times> (string \<times> dict_value) list) list"
  handlers :: "(string \<times> (string \<times> dict_value) list) list"
  loggers :: "(string \<times> (string \<times> dict_value) list) list"

definition get_logger_config ::
  "'d world \<Rightarrow> Config option \<Rightarrow> string list \<Rightarrow> py_error + LogConfig" where
  "get_logger_config w cfg logger_names =
     (case log_filename_of cfg of
        Inl e \<Rightarrow> Inl e
      | Inr fname \<Rightarrow>
     (case log_level_of w cfg of
        Inl e \<Rightarrow> Inl e
      | Inr log_level \<Rightarrow>
          (let handler_names = [''console''] @ (if truthy fname then [''file''] else []);
               LOG_HANDLERS =
                 [(''console'',
                     [(''class'', DStr ''logging.StreamHandler''),
                      (''formatter'', DStr ''colour''),
                      (''level'', DStr log_level),
                      (''stream'', DStr ''ext://sys.stderr'')]),
                  (''file'',
                     [(''class'', DStr ''logging.FileHandler''),
                      (''formatter'', DStr ''timestamp''),
                      (''filename'',
                         (if truthy fname then DObj fname
                          else DStr (path_join (getcwd w) ''quetz.log''))),
                      (''level'', DStr log_level)])];
               LOGGERS =
                 map (\<lambda>k. (k, [(''level'', DStr log_level),
                                (''handlers'', DList handler_names)])) logger_names
           in Inr \<lparr>version = 1, disable_existing_loggers = False,
                    formatters = LOG_FORMATTERS, handlers = LOG_HANDLERS,
                    loggers = LOGGERS\<rparr>)))"

text \<open>The level every handler and every logger of a logging configuration is set to.\<close>

definition levels :: "LogConfig \<Rightarrow> dict_value option list" where
  "levels lc = map (\<lambda>(k, d). map_of d ''level'') (handlers lc @ loggers lc)"

section \<open>get\_plugin\_manager\<close>

text \<open>
  The plugin manager is described by the calls made on it:
  \<open>pm.load_setuptools_entrypoints("quetz")\<close> is \<open>LoadAll\<close>, and
  \<open>LoadEach v\<close> stands for one call \<open>pm.load_setuptools_entrypoints("quetz", name)\<close>
  for each \<open>name\<close> that iterating the attribute value \<open>v\<close> yields.
\<close>

datatype load_call = LoadAll | LoadEach pyobj

fun for_each_name :: "pyobj \<Rightarrow> py_error + load_call list" where
  "for_each_name PyNone = Inl (TypeError ''NoneType object is not iterable'')"
| "for_each_name v = Inr [LoadEach v]"

definition load_plugins :: "Config \<Rightarrow> py_error + load_call list" where
  "load_plugins cfg =
     (case configured_section cfg ''plugins'' of
        Inl e \<Rightarrow> Inl e
      | Inr configured \<Rightarrow>
          if configured then
            (case Config_getattr cfg ''plugins_enabled'' of
               Inl e \<Rightarrow> Inl e
             | Inr v \<Rightarrow> for_each_name v)
          else Inr [LoadAll])"

definition get_plugin_manager ::
  "'d world \<Rightarrow> process \<Rightarrow> Config option \<Rightarrow> (py_error + load_call list) \<times> process" where
  "get_plugin_manager w st cfg =
     (case cfg of
        Some c \<Rightarrow> (load_plugins c, st)
      | None \<Rightarrow>
          (case Config_new w st None of
             (Inl e, st') \<Rightarrow> (Inl e, st')
           | (Inr c, st') \<Rightarrow> (load_plugins c, st')))"

section \<open>create\_config\<close>

text \<open>\<open>bytes.hex()\<close>: two lower-case hexadecimal digits for each byte.\<close>

definition hex_digit :: "nat \<Rightarrow> char" where
  "hex_digit n = (if n < 10 then char_of (48 + n) else char_of (87 + n))"

definition byte_hex :: "8 word \<Rightarrow> string" where
  "byte_hex b = [hex_digit (unat b div 16), hex_digit (unat b mod 16)]"

definition bytes_hex :: "8 word list \<Rightarrow> string" where
  "bytes_hex bs = concat (map byte_hex bs)"

text \<open>
  A \<open>def\<close> statement evaluates its default arguments once, when it is executed. The
  module object therefore holds the default of \<open>secret\<close>, computed from the bytes
  \<open>token_bytes(32)\<close> returned while the module was imported.
\<close>

record module_state =
  secret_default :: string

definition import_module :: "8 word list \<Rightarrow> module_state" where
  "import_module token = \<lparr>secret_default = bytes_hex token\<rparr>"

text \<open>The arguments of a call; \<open>None\<close> is an argument left out.\<close>

record create_config_args =
  client_id :: "string option"
  client_secret :: "string option"
  database_url :: "string option"
  secret :: "string option"
  https :: "string option"

definition or_default :: "string option \<Rightarrow> string \<Rightarrow> string" where
  "or_default a d = (case a of None \<Rightarrow> d | Some v \<Rightarrow> v)"

text \<open>
  The template \<open>config.toml\<close> beside the module is read at every call; it is given
  here as \<open>str.format\<close> sees it, a sequence of literal text and positional
  replacement fields. A field beyond the arguments raises \<open>IndexError\<close>.
\<close>

datatype piece = Lit string | Field nat

fun format_str :: "piece list \<Rightarrow> string list \<Rightarrow> py_error + string" where
  "format_str [] args = Inr []"
| "format_str (Lit t # ps) args =
     (case format_str ps args of Inl e \<Rightarrow> Inl e | Inr r \<Rightarrow> Inr (t @ r))"
| "format_str (Field i # ps) args =
     (if i < length args
      then (case format_str ps args of Inl e \<Rightarrow> Inl e | Inr r \<Rightarrow> Inr (args ! i @ r))
      else Inl (IndexError ''Replacement index out of range''))"

definition bound_args :: "module_state \<Rightarrow> create_config_args \<Rightarrow> string list" where
  "bound_args m a =
     [or_default (client_id a) '''',
      or_default (client_secret a) '''',
      or_default (database_url a) ''sqlite:///./quetz.sqlite'',
      or_default (secret a) (secret_default m),
      or_default (https a) ''true'']"

definition create_config ::
  "module_state \<Rightarrow> piece list \<Rightarrow> create_config_args \<Rightarrow> py_error + string" where
  "create_config m template a = format_str template (bound_args m a)"

section \<open>Notions used to state the properties\<close>

subsection \<open>File location, as the specification words it\<close>

definition site_file :: "'d world \<Rightarrow> string" where
  "site_file w = path_join (site_dir w) filename"

definition user_file :: "'d world \<Rightarrow> string" where
  "user_file w = path_join (user_dir w) filename"

text \<open>A candidate given by the caller or the environment counts only if it names a file.\<close>

definition usable :: "'d world \<Rightarrow> string option \<Rightarrow> bool" where
  "usable w f = (case f of None \<Rightarrow> False | Some p \<Rightarrow> p \<noteq> [] \<and> isfile w p)"

text \<open>
  The specification's search order: the site-wide file, the user-profile file, the
  explicitly supplied path, the path named by the environment variable; the first that
  exists, or none.
\<close>

definition first_existing :: "'d world \<Rightarrow> string option \<Rightarrow> string option" where
  "first_existing w explicit =
     (if isfile w (site_file w) then Some (site_file w)
      else if isfile w (user_file w) then Some (user_file w)
      else if usable w explicit then explicit
      else if usable w (environ w ''QUETZ_CONFIG_FILE'') then environ w ''QUETZ_CONFIG_FILE''
      else None)"

subsection \<open>Runs of a process\<close>

text \<open>
  A process calls \<open>Config(...)\<close> any number of times; each call meets the environment
  as it is at that moment. \<open>run\<close> gives the state after a sequence of calls, whatever
  each of them returned.
\<close>

fun run :: "process \<Rightarrow> ('d world \<times> string option) list \<Rightarrow> process" where
  "run st [] = st"
| "run st ((w, dc) # calls) = run (snd (Config_new w st dc)) calls"

text \<open>
  The calls of a sequence locate their file as they would in the environment \<open>w\<close>:
  the files on disk may be rewritten between calls, not moved.
\<close>

definition located_alike :: "'d world \<Rightarrow> ('d world \<times> string option) list \<Rightarrow> bool" where
  "located_alike w calls =
     list_all (\<lambda>(w', dc'). resolved_path w' dc' = resolved_path w dc') calls"

text \<open>
  The registry holds \<open>c\<close> for the argument \<open>dc\<close> resolved to \<open>p\<close>: under the key
  \<open>None\<close> when the argument is empty and that key is set, under \<open>p\<close> otherwise.
\<close>

definition holds_instance :: "process \<Rightarrow> string option \<Rightarrow> string \<Rightarrow> Config \<Rightarrow> bool" where
  "holds_instance st dc p c \<longleftrightarrow>
     (\<not> truthy_str dc \<and> instances st None = Some c) \<or>
     ((truthy_str dc \<or> instances st None = None) \<and> instances st (Some p) = Some c)"

text \<open>
  One instance for each source path: every stored object was allocated by the process,
  two paths never share an object, and the object under \<open>None\<close> is also stored under
  a path.
\<close>

definition registry_ok :: "process \<Rightarrow> bool" where
  "registry_ok st \<longleftrightarrow>
     (\<forall>k c. instances st k = Some c \<longrightarrow> obj_id c < allocated st) \<and>
     (\<forall>p q c d. instances st (Some p) = Some c \<and> instances st (Some q) = Some d \<and>
                obj_id c = obj_id d \<longrightarrow> p = q) \<and>
     (\<forall>c. instances st None = Some c \<longrightarrow> (\<exists>p. instances st (Some p) = Some c))"

subsection \<open>An example deployment\<close>

text \<open>
  The settings of a minimal file, which gives the database URL and the session secret
  and leaves every other field to its default.
\<close>

definition example_settings :: Settings where
  "example_settings =
     \<lparr>general = SettingsGeneral_default,
      cors = None, github = None, gitlab = None, azuread = None,
      sqlalchemy =
        \<lparr>SQLAlchemy_database_url = ''sqlite:///./quetz.sqlite'',
         SQLAlchemy_database_plugin_path = '''', SQLAlchemy_echo_sql = False,
         SQLAlchemy_postgres_pool_size = 100, SQLAlchemy_postgres_max_overflow = 100\<rparr>,
      session = \<lparr>Session_secret = ''0f1e2d3c'', Session_https_only = True\<rparr>,
      local_store = SettingsLocalStore_default,
      s3 = None, azure_blob = None, gcs = None, google = None, logging = None,
      users = None, worker = None,
      plugins = SettingsPlugins_default,
      mirroring = SettingsMirroring_default,
      quotas = None, profiling = None\<rparr>"

text \<open>
  A machine whose files are the given absolute paths with their texts; a relative path
  is taken from the working directory. Its environment is empty, its parser rejects
  one text, and its library constructor, where it is reached, builds the example
  settings.
\<close>

definition example_abspath :: "string \<Rightarrow> string" where
  "example_abspath p = (if p \<noteq> [] \<and> hd p = CHR ''/'' then p else ''/srv/quetz/'' @ p)"

definition example_world :: "(string \<times> string) list \<Rightarrow> string world" where
  "example_world files =
     \<lparr>site_dir = ''/etc/xdg/quetz'',
      user_dir = ''/home/quetz/.config/quetz'',
      environ = Map.empty,
      isfile = (\<lambda>p. map_of files (example_abspath p) \<noteq> None),
      abspath = example_abspath,
      getcwd = ''/srv/quetz'',
      open_read = (\<lambda>p. map_of files (example_abspath p)),
      toml_loads =
        (\<lambda>t. if t = ''[sqlalchemy'' then Inl ''Key group not on a line by itself.''
             else Inr t),
      Settings_new = (\<lambda>env kw. Inr example_settings)\<rparr>"

definition example_config :: Config where
  "example_config = \<lparr>obj_id = 0, config = example_settings\<rparr>"

section \<open>Properties of the registry\<close>

lemma resolved_path_falsy:
  "\<not> truthy_str dc \<Longrightarrow> resolved_path w dc = resolved_path w None"
  by (auto simp: resolved_path_def find_file_def deployment_config_files_def truthy_str_def
      List.map_filter_simps Let_def split: option.splits)

lemma Config_new_stored:
  assumes "Config_new w st dc = (Inr c, st1)"
  shows "holds_instance st1 dc (resolved_path w dc) c"
  using assms
  by (auto simp: holds_instance_def Config_new_def Let_def
      split: option.splits sum.splits if_splits)

lemma Config_new_cached:
  assumes "holds_instance st dc (resolved_path w dc) c"
  shows "Config_new w st dc = (Inr c, st)"
  using assms
  by (auto simp: holds_instance_def Config_new_def Let_def
      split: option.splits sum.splits if_splits)

lemma Config_new_holds:
  assumes "holds_instance st dc (resolved_path w dc) c"
      and "resolved_path w' dc' = resolved_path w dc'"
  shows "holds_instance (snd (Config_new w' st dc')) dc (resolved_path w dc) c"
proof (cases "truthy_str dc \<or> truthy_str dc'")
  case True
  then show ?thesis using assms(1)
    by (auto simp: holds_instance_def Config_new_def Let_def
        split: option.splits sum.splits if_splits)
next
  case False
  then have "resolved_path w' dc' = resolved_path w dc"
    using assms(2) resolved_path_falsy[of dc w] resolved_path_falsy[of dc' w] by simp
  then show ?thesis using assms(1) False
    by (auto simp: holds_instance_def Config_new_def Let_def
        split: option.splits sum.splits if_splits)
qed

lemma run_holds:
  "holds_instance st dc (resolved_path w dc) c \<Longrightarrow> located_alike w calls \<Longrightarrow>
   holds_instance (run st calls) dc (resolved_path w dc) c"
proof (induction calls arbitrary: st)
  case Nil
  then show ?case by simp
next
  case (Cons a calls)
  obtain w' dc' where a: "a = (w', dc')" by (cases a)
  from Cons.prems(2) have alike: "resolved_path w' dc' = resolved_path w dc'"
    and rest: "located_alike w calls"
    by (simp_all add: located_alike_def a)
  have "holds_instance (snd (Config_new w' st dc')) dc (resolved_path w dc) c"
    using Cons.prems(1) alike by (rule Config_new_holds)
  then show ?case unfolding a using rest by (simp add: Cons.IH)
qed


lemma registry_ok_alloc:
  "registry_ok st \<Longrightarrow> registry_ok (st\<lparr>allocated := Suc (allocated st)\<rparr>)"
  unfolding registry_ok_def by (auto intro: less_SucI)

lemma registry_ok_store:
  assumes ok: "registry_ok st" and free: "instances st (Some p) = None"
    and none: "b \<Longrightarrow> instances st None = None"
    and c: "c = \<lparr>obj_id = allocated st, config = s\<rparr>"
    and m: "m = (if b then ((instances st)(Some p \<mapsto> c))(None \<mapsto> c)
                 else (instances st)(Some p \<mapsto> c))"
  shows "registry_ok \<lparr>instances = m, allocated = Suc (allocated st)\<rparr>"
proof -
  have below: "\<And>k c. instances st k = Some c \<Longrightarrow> obj_id c < allocated st"
    using ok by (auto simp: registry_ok_def)
  have inj: "\<And>p q c d. instances st (Some p) = Some c \<Longrightarrow> instances st (Some q) = Some d \<Longrightarrow>
                obj_id c = obj_id d \<Longrightarrow> p = q"
    using ok unfolding registry_ok_def by blast
  have dflt: "\<And>c. instances st None = Some c \<Longrightarrow> \<exists>p. instances st (Some p) = Some c"
    using ok unfolding registry_ok_def by blast
  have 1: "obj_id d < Suc (allocated st)" if "m k = Some d" for k d
    using that below[of k d] by (auto simp: m c split: if_splits intro: less_SucI)
  have at_p: "m (Some p) = Some c" by (simp add: m)
  have c_id: "obj_id c = allocated st" by (simp add: c)
  have off_p: "m (Some q) = instances st (Some q)" if "q \<noteq> p" for q
    using that by (simp add: m)
  have 2: "q = r" if q: "m (Some q) = Some d" and r: "m (Some r) = Some e"
    and eq: "obj_id d = obj_id e" for q r d e
  proof (cases "q = p")
    case True
    then have "d = c" using q at_p by simp
    then have d: "obj_id d = allocated st" using c_id by simp
    show ?thesis
    proof (cases "r = p")
      case True
      then show ?thesis using \<open>q = p\<close> by simp
    next
      case False
      then have "instances st (Some r) = Some e" using r off_p by simp
      then have "obj_id e < allocated st" by (rule below)
      then show ?thesis using d eq by simp
    qed
  next
    case False
    then have qd: "instances st (Some q) = Some d" using q off_p by simp
    then have lt: "obj_id d < allocated st" by (rule below)
    show ?thesis
    proof (cases "r = p")
      case True
      then have "e = c" using r at_p by simp
      then have "obj_id e = allocated st" using c_id by simp
      then show ?thesis using lt eq by simp
    next
      case False
      then have "instances st (Some r) = Some e" using r off_p by simp
      with qd show ?thesis using eq by (rule inj)
    qed
  qed
  have 3: "\<exists>q. m (Some q) = Some d" if "m None = Some d" for d
  proof (cases b)
    case True
    then show ?thesis using that by (auto simp: m)
  next
    case False
    then have "instances st None = Some d" using that by (simp add: m)
    then obtain q where q: "instances st (Some q) = Some d" using dflt by blast
    then have "q \<noteq> p" using free by auto
    then show ?thesis using q False by (auto simp: m)
  qed
  show ?thesis
    unfolding registry_ok_def using 1 2 3 by (simp; blast)
qed

lemma Config_new_ok:
  assumes "registry_ok st"
  shows "registry_ok (snd (Config_new w st dc))"
proof (cases "if \<not> truthy_str dc then instances st None else None")
  case (Some c)
  then show ?thesis using assms by (simp add: Config_new_def)
next
  case None
  note dflt = this
  show ?thesis
  proof (cases "instances st (Some (resolved_path w dc))")
    case (Some c)
    then show ?thesis using assms dflt by (simp add: Config_new_def)
  next
    case None
    note free = this
    show ?thesis
    proof (cases "init w (resolved_path w dc)")
      case (Inl e)
      then show ?thesis using assms dflt free
        by (simp add: Config_new_def registry_ok_alloc)
    next
      case (Inr s)
      have "registry_ok \<lparr>instances =
               (if \<not> truthy_str dc
                then ((instances st)(Some (resolved_path w dc) \<mapsto>
                        \<lparr>obj_id = allocated st, config = s\<rparr>))
                       (None \<mapsto> \<lparr>obj_id = allocated st, config = s\<rparr>)
                else (instances st)(Some (resolved_path w dc) \<mapsto>
                        \<lparr>obj_id = allocated st, config = s\<rparr>)),
               allocated = Suc (allocated st)\<rparr>"
        using assms free
      proof (rule registry_ok_store)
        show "instances st None = None" if "\<not> truthy_str dc"
          using that dflt by simp
      qed simp_all
      then show ?thesis using dflt free Inr
        by (simp add: Config_new_def Let_def)
    qed
  qed
qed

lemma registry_ok_start: "registry_ok process_start"
  by (simp add: registry_ok_def process_start_def)

lemma run_ok: "registry_ok st \<Longrightarrow> registry_ok (run st calls)"
proof (induction calls arbitrary: st)
  case Nil
  then show ?case by simp
next
  case (Cons a calls)
  obtain w dc where a: "a = (w, dc)" by (cases a)
  show ?case unfolding a using Cons.prems by (simp add: Cons.IH Config_new_ok)
qed

text \<open>
  Claim C1. A call \<open>Config(dc)\<close> that returned the object \<open>c\<close> is followed by any
  calls of \<open>Config\<close> and then by a second call with the same argument; the files may
  have been rewritten in between, and each call locates its file as the first did.
  The second call returns \<open>c\<close> itself, the same allocation with the same settings,
  and leaves the process state as it found it: nothing is read or parsed again.
  Throughout, the registry keeps one instance for each source path.
\<close>

theorem Config_new_identical_instance:
  assumes "Config_new w st dc = (Inr c, st1)"
      and "located_alike w calls"
      and "resolved_path w2 dc = resolved_path w dc"
  shows "Config_new w2 (run st1 calls) dc = (Inr c, run st1 calls) \<and>
         (registry_ok st \<longrightarrow> registry_ok (run st1 calls))"
proof -
  have "holds_instance st1 dc (resolved_path w dc) c"
    using assms(1) by (rule Config_new_stored)
  then have "holds_instance (run st1 calls) dc (resolved_path w dc) c"
    using assms(2) by (rule run_holds)
  then have "holds_instance (run st1 calls) dc (resolved_path w2 dc) c"
    using assms(3) by simp
  then have same: "Config_new w2 (run st1 calls) dc = (Inr c, run st1 calls)"
    by (rule Config_new_cached)
  have "registry_ok (run st1 calls)" if "registry_ok st"
  proof -
    have "registry_ok (snd (Config_new w st dc))" using that by (rule Config_new_ok)
    then have "registry_ok st1" using assms(1) by simp
    then show ?thesis by (rule run_ok)
  qed
  with same show ?thesis by simp
qed

lemma example_resolved_explicit:
  "resolved_path (example_world [(''/srv/quetz/dev.toml'', t)]) (Some ''dev.toml'') = ''/srv/quetz/dev.toml''"
  by (simp add: resolved_path_def find_file_def deployment_config_files_def config_files_def
      config_dirs_def example_world_def example_abspath_def path_join_def filename_def truthy_str_def
      List.map_filter_simps env_prefix_def env_config_file_def)

lemma example_resolved_none:
  "resolved_path (example_world [(''/srv/quetz/dev.toml'', t)]) None = ''''"
  by (simp add: resolved_path_def find_file_def deployment_config_files_def config_files_def
      config_dirs_def example_world_def example_abspath_def path_join_def filename_def truthy_str_def
      List.map_filter_simps env_prefix_def env_config_file_def)

lemma example_first_call:
  "Config_new (example_world [(''/srv/quetz/dev.toml'', ''[sqlalchemy]'')]) process_start (Some ''dev.toml'')
   = (Inr example_config,
      \<lparr>instances = [Some ''/srv/quetz/dev.toml'' \<mapsto> example_config], allocated = 1\<rparr>)"
  by (simp add: Config_new_def example_resolved_explicit process_start_def init_def
      read_config_def truthy_str_def example_config_def)
     (simp add: example_world_def example_abspath_def Let_def truthy_str_def)

theorem Config_new_identical_instance_witness:
  "Config_new (example_world [(''/srv/quetz/dev.toml'', ''[sqlalchemy]'')]) process_start (Some ''dev.toml'')
     = (Inr example_config,
        \<lparr>instances = [Some ''/srv/quetz/dev.toml'' \<mapsto> example_config], allocated = 1\<rparr>) \<and>
   located_alike (example_world [(''/srv/quetz/dev.toml'', ''[sqlalchemy]'')])
     [(example_world [(''/srv/quetz/dev.toml'', ''[session]'')], None)] \<and>
   resolved_path (example_world [(''/srv/quetz/dev.toml'', ''[session]'')]) (Some ''dev.toml'')
     = resolved_path (example_world [(''/srv/quetz/dev.toml'', ''[sqlalchemy]'')]) (Some ''dev.toml'') \<and>
   registry_ok process_start \<and>
   Config_new (example_world [(''/srv/quetz/dev.toml'', ''[session]'')])
     (run \<lparr>instances = [Some ''/srv/quetz/dev.toml'' \<mapsto> example_config], allocated = 1\<rparr>
        [(example_world [(''/srv/quetz/dev.toml'', ''[session]'')], None)])
     (Some ''dev.toml'')
     = (Inr example_config,
        run \<lparr>instances = [Some ''/srv/quetz/dev.toml'' \<mapsto> example_config], allocated = 1\<rparr>
          [(example_world [(''/srv/quetz/dev.toml'', ''[session]'')], None)]) \<and>
   registry_ok
     (run \<lparr>instances = [Some ''/srv/quetz/dev.toml'' \<mapsto> example_config], allocated = 1\<rparr>
        [(example_world [(''/srv/quetz/dev.toml'', ''[session]'')], None)])"
proof -
  have first: "Config_new (example_world [(''/srv/quetz/dev.toml'', ''[sqlalchemy]'')]) process_start
      (Some ''dev.toml'')
     = (Inr example_config,
        \<lparr>instances = [Some ''/srv/quetz/dev.toml'' \<mapsto> example_config], allocated = 1\<rparr>)"
    by (rule example_first_call)
  have alike: "located_alike (example_world [(''/srv/quetz/dev.toml'', ''[sqlalchemy]'')])
     [(example_world [(''/srv/quetz/dev.toml'', ''[session]'')], None)]"
    by (simp add: located_alike_def example_resolved_none)
  have same: "resolved_path (example_world [(''/srv/quetz/dev.toml'', ''[session]'')]) (Some ''dev.toml'')
     = resolved_path (example_world [(''/srv/quetz/dev.toml'', ''[sqlalchemy]'')]) (Some ''dev.toml'')"
    by (simp add: example_resolved_explicit)
  show ?thesis
    using Config_new_identical_instance [OF first alike same] first alike same registry_ok_start
    by simp
qed

section \<open>Properties of file location and loading\<close>

lemma find_file_is_first_existing: "find_file w dc = first_existing w dc"
  by (auto simp: find_file_def first_existing_def deployment_config_files_def config_files_def
      config_dirs_def site_file_def user_file_def usable_def List.map_filter_simps truthy_str_def
      env_prefix_def env_config_file_def Let_def split: option.splits)

lemma resolved_path_open_read:
  "resolved_path (w\<lparr>open_read := r\<rparr>) dc = resolved_path w dc"
  by (simp add: resolved_path_def find_file_def deployment_config_files_def config_files_def
      config_dirs_def Let_def List.map_filter_simps cong: option.case_cong)

lemma init_other_file:
  "p \<noteq> path \<Longrightarrow> init (w\<lparr>open_read := (open_read w)(p := t)\<rparr>) path = init w path"
  by (simp add: init_def read_config_def Settings_no_arguments_def
      cong: option.case_cong sum.case_cong)

lemma Config_new_other_file:
  "p \<noteq> resolved_path w dc \<Longrightarrow>
   Config_new (w\<lparr>open_read := (open_read w)(p := t)\<rparr>) st dc = Config_new w st dc"
  by (simp add: Config_new_def init_other_file resolved_path_open_read Let_def
      cong: option.case_cong)

text \<open>
  Claim C6. \<open>find_file\<close> returns the first existing candidate in the order site-wide
  file, user-profile file, explicit path, path named by \<open>QUETZ_CONFIG_FILE\<close> (the last
  two only when they name a file), and nothing when no candidate exists. When the
  site-wide file exists it is the one returned, whatever else exists. Nothing is
  merged: the text read at any path other than the resolved one has no effect on what
  \<open>Config(...)\<close> returns or stores.
\<close>

theorem find_file_first_match_no_merge:
  "find_file w dc = first_existing w dc \<and>
   (isfile w (site_file w) \<longrightarrow> find_file w dc = Some (site_file w)) \<and>
   (p \<noteq> resolved_path w dc \<longrightarrow>
      Config_new (w\<lparr>open_read := (open_read w)(p := t)\<rparr>) st dc = Config_new w st dc)"
  by (simp add: find_file_is_first_existing first_existing_def Config_new_other_file)

theorem find_file_first_match_no_merge_witness:
  "isfile (example_world [(''/etc/xdg/quetz/config.toml'', ''[sqlalchemy]''),
                          (''/home/quetz/.config/quetz/config.toml'', ''[session]'')])
     (site_file (example_world [(''/etc/xdg/quetz/config.toml'', ''[sqlalchemy]''),
                                (''/home/quetz/.config/quetz/config.toml'', ''[session]'')])) \<and>
   find_file (example_world [(''/etc/xdg/quetz/config.toml'', ''[sqlalchemy]''),
                             (''/home/quetz/.config/quetz/config.toml'', ''[session]'')]) None
     = Some ''/etc/xdg/quetz/config.toml'' \<and>
   ''/home/quetz/.config/quetz/config.toml''
     \<noteq> resolved_path (example_world [(''/etc/xdg/quetz/config.toml'', ''[sqlalchemy]''),
                                   (''/home/quetz/.config/quetz/config.toml'', ''[session]'')]) None \<and>
   Config_new
     ((example_world [(''/etc/xdg/quetz/config.toml'', ''[sqlalchemy]''),
                      (''/home/quetz/.config/quetz/config.toml'', ''[session]'')])
        \<lparr>open_read :=
           (open_read (example_world [(''/etc/xdg/quetz/config.toml'', ''[sqlalchemy]''),
                                      (''/home/quetz/.config/quetz/config.toml'', ''[session]'')]))
           (''/home/quetz/.config/quetz/config.toml'' := Some ''[sqlalchemy'')\<rparr>)
     process_start None
   = Config_new (example_world [(''/etc/xdg/quetz/config.toml'', ''[sqlalchemy]''),
                                (''/home/quetz/.config/quetz/config.toml'', ''[session]'')])
       process_start None"
proof -
  let ?w = "example_world [(''/etc/xdg/quetz/config.toml'', ''[sqlalchemy]''),
                           (''/home/quetz/.config/quetz/config.toml'', ''[session]'')]"
  have site: "site_file ?w = ''/etc/xdg/quetz/config.toml''"
    by (simp add: site_file_def example_world_def path_join_def filename_def)
  have there: "isfile ?w (site_file ?w)"
    unfolding site by (simp add: example_world_def example_abspath_def)
  have "find_file ?w None = Some (site_file ?w)"
    using find_file_first_match_no_merge [of ?w None "[]" None process_start] there by blast
  then have found: "find_file ?w None = Some ''/etc/xdg/quetz/config.toml''"
    unfolding site .
  have path: "resolved_path ?w None = ''/etc/xdg/quetz/config.toml''"
    unfolding resolved_path_def found by (simp add: example_world_def example_abspath_def)
  have other: "''/home/quetz/.config/quetz/config.toml'' \<noteq> resolved_path ?w None"
    unfolding path by simp
  have "Config_new
      (?w\<lparr>open_read :=
            (open_read ?w)(''/home/quetz/.config/quetz/config.toml'' := Some ''[sqlalchemy'')\<rparr>)
      process_start None
     = Config_new ?w process_start None"
    using find_file_first_match_no_merge
      [of ?w None "''/home/quetz/.config/quetz/config.toml''" "Some ''[sqlalchemy''" process_start]
      other
    by blast
  then show ?thesis using there found other by simp
qed

text \<open>
  Claim C4. A file was located, its path is \<open>fname\<close>, and the parser rejects its text
  with the diagnostic \<open>diag\<close>. Then \<open>_read_config\<close> raises a \<open>ConfigError\<close> whose
  message holds the path and the diagnostic, \<open>init\<close> raises it too, and a call
  \<open>Config(dc)\<close> that has to load the file raises it, returns no object and stores
  none.
\<close>

theorem malformed_file_is_config_error:
  assumes "find_file w dc = Some f"
      and "abspath w f = fname"
      and "fname \<noteq> []"
      and "open_read w fname = Some text"
      and "toml_loads w text = Inl diag"
      and "instances st (Some fname) = None"
      and "truthy_str dc \<or> instances st None = None"
  shows "read_config w fname =
           Inl (ConfigError
             (''failed to load config file '' @ [quote] @ fname @ [quote] @ '': '' @ diag)) \<and>
         init w fname = read_config w fname \<and>
         fst (Config_new w st dc) =
           Inl (ConfigError
             (''failed to load config file '' @ [quote] @ fname @ [quote] @ '': '' @ diag)) \<and>
         instances (snd (Config_new w st dc)) = instances st"
proof -
  have rc: "read_config w fname =
      Inl (ConfigError
        (''failed to load config file '' @ [quote] @ fname @ [quote] @ '': '' @ diag))"
    using assms(4,5) by (simp add: read_config_def)
  have i: "init w fname = read_config w fname"
    using assms(3) by (simp add: init_def)
  have p: "resolved_path w dc = fname"
    using assms(1,2) by (simp add: resolved_path_def)
  have entry: "(if \<not> truthy_str dc then instances st None else None) = None"
    using assms(7) by auto
  have "Config_new w st dc =
      (Inl (ConfigError
         (''failed to load config file '' @ [quote] @ fname @ [quote] @ '': '' @ diag)),
       st\<lparr>allocated := Suc (allocated st)\<rparr>)"
    using entry assms(6) p i rc by (simp add: Config_new_def Let_def)
  then show ?thesis using rc i by simp
qed

theorem malformed_file_is_config_error_witness:
  "find_file (example_world [(''/srv/quetz/dev.toml'', ''[sqlalchemy'')]) (Some ''dev.toml'')
     = Some ''dev.toml'' \<and>
   abspath (example_world [(''/srv/quetz/dev.toml'', ''[sqlalchemy'')]) ''dev.toml''
     = ''/srv/quetz/dev.toml'' \<and>
   open_read (example_world [(''/srv/quetz/dev.toml'', ''[sqlalchemy'')]) ''/srv/quetz/dev.toml''
     = Some ''[sqlalchemy'' \<and>
   toml_loads (example_world [(''/srv/quetz/dev.toml'', ''[sqlalchemy'')]) ''[sqlalchemy''
     = Inl ''Key group not on a line by itself.'' \<and>
   fst (Config_new (example_world [(''/srv/quetz/dev.toml'', ''[sqlalchemy'')]) process_start
          (Some ''dev.toml''))
     = Inl (ConfigError
         (''failed to load config file '' @ [quote] @ ''/srv/quetz/dev.toml'' @ [quote]
          @ '': Key group not on a line by itself.'')) \<and>
   instances (snd (Config_new (example_world [(''/srv/quetz/dev.toml'', ''[sqlalchemy'')])
                     process_start (Some ''dev.toml'')))
     = Map.empty"
proof -
  let ?w = "example_world [(''/srv/quetz/dev.toml'', ''[sqlalchemy'')]"
  have 1: "find_file ?w (Some ''dev.toml'') = Some ''dev.toml''"
    by (simp add: find_file_def deployment_config_files_def config_files_def
        config_dirs_def example_world_def example_abspath_def path_join_def filename_def
        truthy_str_def List.map_filter_simps env_prefix_def env_config_file_def)
  have 2: "abspath ?w ''dev.toml'' = ''/srv/quetz/dev.toml''"
    by (simp add: example_world_def example_abspath_def)
  have 3: "''/srv/quetz/dev.toml'' \<noteq> []" by simp
  have 4: "open_read ?w ''/srv/quetz/dev.toml'' = Some ''[sqlalchemy''"
    by (simp add: example_world_def example_abspath_def)
  have 5: "toml_loads ?w ''[sqlalchemy'' = Inl ''Key group not on a line by itself.''"
    by (simp add: example_world_def)
  have 6: "instances process_start (Some ''/srv/quetz/dev.toml'') = None"
    by (simp add: process_start_def)
  have 7: "truthy_str (Some ''dev.toml'') \<or> instances process_start None = None"
    by (simp add: truthy_str_def)
  from malformed_file_is_config_error [OF 1 2 3 4 5 6 7]
  have a: "fst (Config_new ?w process_start (Some ''dev.toml''))
      = Inl (ConfigError
         (''failed to load config file '' @ [quote] @ ''/srv/quetz/dev.toml'' @ [quote]
          @ '': '' @ ''Key group not on a line by itself.''))"
    and b: "instances (snd (Config_new ?w process_start (Some ''dev.toml'')))
      = instances process_start"
    by blast+
  have c: "instances process_start = Map.empty" by (simp add: process_start_def)
  show ?thesis using 1 2 4 5 a b c by simp
qed




section \<open>Properties of attribute lookup and its callers\<close>

lemma Settings_getattr_get: "Settings_getattr s ''get'' = Inl (AttributeError ''get'')"
  by (simp add: Settings_getattr_def Settings_fields_def)

lemma Settings_getattr_plugins: "Settings_getattr s ''plugins'' = Inr (PyPlugins (plugins s))"
  by (simp add: Settings_getattr_def Settings_fields_def)

lemma Settings_getattr_plugins_enabled:
  "Settings_getattr s ''plugins_enabled'' = Inl (AttributeError ''plugins_enabled'')"
  by (simp add: Settings_getattr_def Settings_fields_def)

lemma Settings_getattr_logging_level:
  "Settings_getattr s ''logging_level'' = Inl (AttributeError ''logging_level'')"
  by (simp add: Settings_getattr_def Settings_fields_def)

lemma Settings_getattr_redirect_enabled:
  "Settings_getattr s ''local_store_redirect_enabled''
   = Inl (AttributeError ''local_store_redirect_enabled'')"
  by (simp add: Settings_getattr_def Settings_fields_def)

lemma Settings_getattr_logging_file:
  "Settings_getattr s ''logging_file'' = Inl (AttributeError ''logging_file'')"
  by (simp add: Settings_getattr_def Settings_fields_def)

text \<open>
  Claim C3. The claim says that \<open>get_package_store\<close> returns the descriptor of the
  first cloud section present, and the local descriptor when none is. The code, on
  every \<open>Config\<close> object, raises \<open>AttributeError\<close> at its first test
  \<open>self.config.get('s3')\<close>: a \<open>Settings\<close> object has the section fields as attributes
  and no attribute \<open>get\<close>. No descriptor is produced. The dictionary of the local
  store cannot be built either: its first attribute, \<open>local_store_redirect_enabled\<close>,
  is a flattened name that no \<open>Settings\<close> object has.
\<close>

theorem get_package_store_raises:
  "get_package_store self = Inl (AttributeError ''get'') \<and>
   local_store_dict self = Inl (AttributeError ''local_store_redirect_enabled'')"
  by (simp add: get_package_store_def Settings_call_def Settings_getattr_get
      local_store_dict_def Config_getattr_def Settings_getattr_redirect_enabled)

lemma hasattr_logging_level: "hasattr cfg ''logging_level'' = Inr False"
  by (cases cfg) (simp_all add: hasattr_def Config_getattr_def Settings_getattr_logging_level)

lemma hasattr_logging_file: "hasattr cfg ''logging_file'' = Inr False"
  by (cases cfg) (simp_all add: hasattr_def Config_getattr_def Settings_getattr_logging_file)

lemma log_level_of_env_or_INFO:
  "log_level_of w cfg =
     Inr (upper (case environ w ''QUETZ_LOG_LEVEL'' of None \<Rightarrow> ''INFO'' | Some s \<Rightarrow> s))"
  by (cases "environ w ''QUETZ_LOG_LEVEL''")
     (simp_all add: log_level_of_def hasattr_logging_level)

text \<open>
  Claim C7. The claim says that the effective level is the level of the logging
  section when the section is present. The code asks the \<open>Config\<close> object for the
  attribute \<open>logging_level\<close>, which no \<open>Settings\<close> object has, and so falls back to
  \<open>INFO\<close>: with a logging section whose level is \<open>DEBUG\<close> and no \<open>QUETZ_LOG_LEVEL\<close> in
  the environment, every handler and logger is set to \<open>INFO\<close>. Whatever the
  object passed, the level is the upper-cased value of \<open>QUETZ_LOG_LEVEL\<close> when the
  variable is set, and \<open>INFO\<close> when it is not.
\<close>

theorem get_logger_config_ignores_logging_section:
  "map_sum id levels
     (get_logger_config (example_world [])
        (Some \<lparr>obj_id = 0,
               config = example_settings
                 \<lparr>logging := Some \<lparr>Logging_level = ''DEBUG'', Logging_file = []\<rparr>\<rparr>\<rparr>)
        [''quetz''])
   = Inr [Some (DStr ''INFO''), Some (DStr ''INFO''), Some (DStr ''INFO'')] \<and>
   log_level_of w cfg =
     Inr (upper (case environ w ''QUETZ_LOG_LEVEL'' of None \<Rightarrow> ''INFO'' | Some s \<Rightarrow> s))"
proof -
  have "environ (example_world []) ''QUETZ_LOG_LEVEL'' = None"
    by (simp add: example_world_def)
  then have "log_level_of (example_world []) c = Inr ''INFO''" for c
    by (simp add: log_level_of_env_or_INFO upper_def upper_char_def)
  then show ?thesis
    by (simp add: get_logger_config_def log_filename_of_def hasattr_logging_file levels_def
        log_level_of_env_or_INFO)
qed

lemma load_plugins_raises: "load_plugins cfg = Inl (AttributeError ''plugins_enabled'')"
  by (simp add: load_plugins_def configured_section_def
      Config_getattr_def Settings_getattr_plugins Settings_getattr_plugins_enabled)

text \<open>
  Claim C8. The claim says that all discoverable plugins are loaded when the plugins
  section is left at its default, and the listed ones when it is set. The code, given
  any \<open>Config\<close> object, finds the section configured (its object is always present),
  reads the attribute \<open>plugins_enabled\<close>, which no \<open>Settings\<close> object has, and raises
  \<open>AttributeError\<close>: no plugin is loaded, neither all nor the listed ones. Called
  without an object it builds one with \<open>Config()\<close> and fails in the same way, unless
  \<open>Config()\<close> has failed already.
\<close>

theorem get_plugin_manager_raises:
  "get_plugin_manager w st (Some cfg) = (Inl (AttributeError ''plugins_enabled''), st) \<and>
   get_plugin_manager w st (Some example_config) \<noteq> (Inr [LoadAll], st) \<and>
   fst (get_plugin_manager w st None) =
     (case fst (Config_new w st None) of
        Inl e \<Rightarrow> Inl e
      | Inr c \<Rightarrow> Inl (AttributeError ''plugins_enabled''))"
  by (cases "Config_new w st None")
     (simp add: get_plugin_manager_def load_plugins_raises split: sum.splits)

section \<open>Properties of configured\_section\<close>

text \<open>
  Claim C10. For every \<open>Config\<close> object, whatever its settings were built from (a
  file, or the defaults alone), \<open>configured_section\<close> answers true for \<open>general\<close>,
  \<open>local_store\<close>, \<open>plugins\<close> and \<open>mirroring\<close>, whose fields always hold an object, and
  likewise for the two mandatory sections. For each of the thirteen optional sections
  it answers true exactly when the field of the settings holds an object, and false
  exactly when the field is \<open>None\<close>.
\<close>

theorem configured_section_default_sections:
  "configured_section c ''general'' = Inr True \<and>
   configured_section c ''local_store'' = Inr True \<and>
   configured_section c ''plugins'' = Inr True \<and>
   configured_section c ''mirroring'' = Inr True \<and>
   configured_section c ''sqlalchemy'' = Inr True \<and>
   configured_section c ''session'' = Inr True \<and>
   configured_section c ''cors'' = Inr (cors (config c) \<noteq> None) \<and>
   configured_section c ''github'' = Inr (github (config c) \<noteq> None) \<and>
   configured_section c ''gitlab'' = Inr (gitlab (config c) \<noteq> None) \<and>
   configured_section c ''azuread'' = Inr (azuread (config c) \<noteq> None) \<and>
   configured_section c ''s3'' = Inr (s3 (config c) \<noteq> None) \<and>
   configured_section c ''azure_blob'' = Inr (azure_blob (config c) \<noteq> None) \<and>
   configured_section c ''gcs'' = Inr (gcs (config c) \<noteq> None) \<and>
   configured_section c ''google'' = Inr (google (config c) \<noteq> None) \<and>
   configured_section c ''logging'' = Inr (logging (config c) \<noteq> None) \<and>
   configured_section c ''users'' = Inr (users (config c) \<noteq> None) \<and>
   configured_section c ''worker'' = Inr (worker (config c) \<noteq> None) \<and>
   configured_section c ''quotas'' = Inr (quotas (config c) \<noteq> None) \<and>
   configured_section c ''profiling'' = Inr (profiling (config c) \<noteq> None)"
proof -
  have opt: "truthy (optional f x) = (x \<noteq> None)" if "\<And>v. truthy (f v)"
    for f :: "'a \<Rightarrow> pyobj" and x
    using that by (cases x) (simp_all add: optional_def)
  show ?thesis
    by (simp add: configured_section_def Settings_getattr_def Settings_fields_def opt)
qed

theorem configured_section_default_sections_witness:
  "configured_section example_config ''general'' = Inr True \<and>
   configured_section example_config ''local_store'' = Inr True \<and>
   configured_section example_config ''plugins'' = Inr True \<and>
   configured_section example_config ''mirroring'' = Inr True \<and>
   configured_section example_config ''s3'' = Inr False \<and>
   configured_section example_config ''logging'' = Inr False \<and>
   configured_section
     (example_config\<lparr>config := example_settings
        \<lparr>logging := Some \<lparr>Logging_level = ''DEBUG'', Logging_file = []\<rparr>\<rparr>\<rparr>)
     ''logging'' = Inr True"
  using configured_section_default_sections [of example_config]
    configured_section_default_sections
      [of "example_config\<lparr>config := example_settings
             \<lparr>logging := Some \<lparr>Logging_level = ''DEBUG'', Logging_file = []\<rparr>\<rparr>\<rparr>"]
  by (simp add: example_config_def example_settings_def)

section \<open>Properties of create\_config\<close>

text \<open>
  Claim C9. Two calls of \<open>create_config\<close> in one process, both without the argument
  \<open>secret\<close>, format the template with the same secret: the one the module computed
  when it was imported, the hexadecimal text of the token drawn then. With the same
  template and the same other arguments the two texts are equal.
\<close>

theorem create_config_default_secret_fixed:
  assumes "secret a1 = None" and "secret a2 = None"
  shows "bound_args (import_module token) a1 ! 3 = bytes_hex token \<and>
         bound_args (import_module token) a2 ! 3 = bytes_hex token \<and>
         create_config (import_module token) template a1 =
           format_str template
             [or_default (client_id a1) '''', or_default (client_secret a1) '''',
              or_default (database_url a1) ''sqlite:///./quetz.sqlite'',
              bytes_hex token, or_default (https a1) ''true''] \<and>
         create_config (import_module token) template a2 =
           format_str template
             [or_default (client_id a2) '''', or_default (client_secret a2) '''',
              or_default (database_url a2) ''sqlite:///./quetz.sqlite'',
              bytes_hex token, or_default (https a2) ''true'']"
  using assms
  by (simp add: create_config_def bound_args_def import_module_def or_default_def)

theorem create_config_default_secret_fixed_witness:
  "secret \<lparr>client_id = None, client_secret = None, database_url = None,
           secret = None, https = None\<rparr> = None \<and>
   secret \<lparr>client_id = Some ''id'', client_secret = None, database_url = None,
           secret = None, https = Some ''false''\<rparr> = None \<and>
   create_config (import_module [0x0f, 0xa0]) [Lit ''secret = '', Field 3]
     \<lparr>client_id = None, client_secret = None, database_url = None,
      secret = None, https = None\<rparr>
     = Inr ''secret = 0fa0'' \<and>
   create_config (import_module [0x0f, 0xa0]) [Lit ''secret = '', Field 3]
     \<lparr>client_id = Some ''id'', client_secret = None, database_url = None,
      secret = None, https = Some ''false''\<rparr>
     = Inr ''secret = 0fa0''"
proof -
  have 1: "secret \<lparr>client_id = None, client_secret = None, database_url = None,
           secret = None, https = None\<rparr> = None" by simp
  have 2: "secret \<lparr>client_id = Some ''id'', client_secret = None, database_url = None,
           secret = None, https = Some ''false''\<rparr> = None" by simp
  have hex: "bytes_hex [0x0f, 0xa0] = ''0fa0''"
    by code_simp
  show ?thesis
    using create_config_default_secret_fixed
      [OF 1 2, of "[0x0f, 0xa0]" "[Lit ''secret = '', Field 3]"]
    by (simp add: hex)
qed

end
